theory Spec2Isabelle
  imports Complex_Main
begin

section \<open>Errors\<close>

text \<open>
  The exceptions the driver of \<^verbatim>\<open>src/main.py\<close> can raise on the paths embedded
  below. \<open>AssertionError\<close> is the failed \<^verbatim>\<open>assert\<close> of the mesh check,
  \<open>ZeroDivisionError\<close> a floor division or remainder by zero, \<open>IndexError\<close> the read of
  element 0 of an empty list, \<open>FileNotFoundError\<close> the \<^verbatim>\<open>open(..., "rb")\<close> of a file
  that does not exist, \<open>NotFound\<close> the download of a bucket object that does not exist, and
  \<open>LibraryError\<close> whatever the checkpoint library itself raises.
\<close>

datatype error =
    AssertionError
  | ZeroDivisionError
  | IndexError
  | FileNotFoundError
  | NotFound
  | LibraryError

section \<open>Mesh shape check (main, lines 89-91)\<close>

text \<open>
  \<^verbatim>\<open>assert num_devices // (cfg.device.dp_devices * cfg.device.mp_devices) == 1\<close>.
  Python's \<^verbatim>\<open>//\<close> on integers is floor division, which is \<open>div\<close> on \<open>int\<close>;
  a zero divisor raises instead of returning 0.
\<close>

definition check_mesh_shape :: "int \<Rightarrow> int \<Rightarrow> int \<Rightarrow> error + unit" where
  "check_mesh_shape num_devices dp_devices mp_devices =
     (if dp_devices * mp_devices = 0 then Inl ZeroDivisionError
      else if num_devices div (dp_devices * mp_devices) = 1 then Inr ()
      else Inl AssertionError)"

section \<open>Curriculum (main, line 395)\<close>

text \<open>\<^verbatim>\<open>step_to_seq = lambda x: 512\<close>.\<close>

definition step_to_seq :: "int \<Rightarrow> int" where
  "step_to_seq x = 512"

section \<open>Training state\<close>

text \<open>
  The loss-scale state carried by a training state that uses dynamic loss scaling: the
  loss multiplier, the counter of consecutive finite steps, and the policy constants
  (spec 3 and 9: \<^verbatim>\<open>Dynamic{scale, growth_counter}\<close>, the backoff rule a configurable
  policy). Floating-point scalars are taken as reals.
\<close>

record DynamicScale =
  scale :: real
  growth_counter :: nat
  growth_factor :: real
  backoff_factor :: real
  growth_interval :: nat

text \<open>
  \<^verbatim>\<open>TrainState\<close> as \<^verbatim>\<open>main.py\<close> uses it: the fields \<^verbatim>\<open>step\<close>, \<^verbatim>\<open>params\<close>,
  \<^verbatim>\<open>opt_state\<close>, \<^verbatim>\<open>apply_fn\<close>, \<^verbatim>\<open>tx\<close> and \<^verbatim>\<open>dynamic_scale\<close>. The trees of
  tensors are values of the types \<open>'p\<close> (parameters), \<open>'o\<close> (optimizer state) and
  \<open>'g\<close> (gradients); \<open>'b\<close> is a batch and \<open>'k\<close> a random key. \<open>apply_fn\<close> takes the
  parameters, the batch (input and labels alike), the \<^verbatim>\<open>train\<close> flag and the dropout
  key, and returns the loss (the first component of its result is ignored by every
  caller). \<open>tx\<close> is the optimizer's update rule: from gradients, optimizer state and
  parameters to the new parameters and the new optimizer state.
\<close>

record ('p, 'o, 'b, 'k, 'g) TrainState =
  step :: int
  params :: 'p
  opt_state :: 'o
  apply_fn :: "'p \<Rightarrow> 'b \<Rightarrow> bool \<Rightarrow> 'k option \<Rightarrow> real"
  tx :: "'g \<Rightarrow> 'o \<Rightarrow> 'p \<Rightarrow> 'p \<times> 'o"
  dynamic_scale :: "DynamicScale option"

text \<open>
  The execution engine's differentiation: \<open>value_and_grad f p\<close> is the value of \<open>f\<close> at
  \<open>p\<close> and its gradient there; \<open>scaled_value_and_grad s f p\<close> is the same computed
  through the loss multiplied by \<open>s\<close> and the gradients divided by \<open>s\<close> afterwards (in
  floating point the two differ: the scaled computation can overflow); \<open>all_finite g\<close>
  says that no leaf of the gradient tree is an infinity or a NaN.
\<close>

record ('p, 'g) engine =
  value_and_grad :: "('p \<Rightarrow> real) \<Rightarrow> 'p \<Rightarrow> real \<times> 'g"
  scaled_value_and_grad :: "real \<Rightarrow> ('p \<Rightarrow> real) \<Rightarrow> 'p \<Rightarrow> real \<times> 'g"
  all_finite :: "'g \<Rightarrow> bool"

text \<open>
  Modelled from the spec: \<^verbatim>\<open>TrainState.apply_gradients\<close> is defined in
  \<^verbatim>\<open>src/training/training_utils.py\<close>, which is not among the sources. Spec 4.4 step 5:
  apply the optimizer's update rule to produce new params/opt_state; increment step by 1.
\<close>

definition apply_gradients ::
  "('p, 'o, 'b, 'k, 'g) TrainState \<Rightarrow> 'g \<Rightarrow> ('p, 'o, 'b, 'k, 'g) TrainState" where
  "apply_gradients state grads =
     (case tx state grads (opt_state state) (params state) of
        (new_params, new_opt_state) \<Rightarrow>
          state\<lparr>step := step state + 1, params := new_params, opt_state := new_opt_state\<rparr>)"

text \<open>
  Modelled from the spec: the adjustment of the loss scale made by
  \<^verbatim>\<open>dynamic_scale.value_and_grad\<close>, which is not among the sources. Spec 4.4 step 3: the
  loss-scale value is decreased on overflow and cautiously increased after a run of
  healthy steps.
\<close>

definition adjust_scale :: "DynamicScale \<Rightarrow> bool \<Rightarrow> DynamicScale" where
  "adjust_scale ds is_fin =
     (if is_fin then
        (if growth_counter ds + 1 = growth_interval ds
         then ds\<lparr>scale := scale ds * growth_factor ds, growth_counter := 0\<rparr>
         else ds\<lparr>growth_counter := growth_counter ds + 1\<rparr>)
      else ds\<lparr>scale := scale ds * backoff_factor ds, growth_counter := 0\<rparr>)"

text \<open>
  Modelled from the spec: \<^verbatim>\<open>dynamic_scale.value_and_grad(loss_fn, ...)\<close> applied to the
  parameters. Spec 4.4 step 3: scale the loss before differentiating, unscale gradients
  after, and detect whether gradients are finite. It returns the adjusted loss-scale
  state, the finiteness flag, the loss and the gradients, as line 563 unpacks them.
\<close>

definition ds_value_and_grad ::
  "('p, 'g) engine \<Rightarrow> DynamicScale \<Rightarrow> ('p \<Rightarrow> real) \<Rightarrow> 'p \<Rightarrow> DynamicScale \<times> bool \<times> real \<times> 'g" where
  "ds_value_and_grad eng ds f p =
     (case scaled_value_and_grad eng (scale ds) f p of
        (loss, grads) \<Rightarrow>
          (adjust_scale ds (all_finite eng grads), all_finite eng grads, loss, grads))"

section \<open>The train and eval steps (lines 544-615)\<close>

text \<open>\<^verbatim>\<open>loss_fn\<close>, the closure of \<^verbatim>\<open>train_step\<close> over the state, the batch and the key.\<close>

definition loss_fn ::
  "('p, 'o, 'b, 'k, 'g) TrainState \<Rightarrow> 'b \<Rightarrow> 'k option \<Rightarrow> 'p \<Rightarrow> real" where
  "loss_fn state batch rng_key ps = apply_fn state ps batch True rng_key"

text \<open>
  \<^verbatim>\<open>partial(jnp.where, is_fin)\<close> mapped over two trees of the same shape with a scalar
  condition: every leaf comes from the first tree when the condition holds and from the
  second otherwise.
\<close>

definition tree_where :: "bool \<Rightarrow> 'a \<Rightarrow> 'a \<Rightarrow> 'a" where
  "tree_where c new old = (if c then new else old)"

text \<open>\<^verbatim>\<open>with_sharding_constraint\<close> fixes the layout of the gradients, not their values.\<close>

definition with_sharding_constraint :: "'g \<Rightarrow> 's \<Rightarrow> 'g" where
  "with_sharding_constraint grads spec = grads"

type_synonym metrics = "(string \<times> real) list"

definition train_step ::
  "('p, 'g) engine \<Rightarrow> ('p, 'o, 'b, 'k, 'g) TrainState \<Rightarrow> 'b \<Rightarrow> 'k option \<Rightarrow> 's option \<Rightarrow>
     ('p, 'o, 'b, 'k, 'g) TrainState \<times> metrics" where
  "train_step eng state batch rng_key param_spec =
     (case dynamic_scale state of
        Some ds \<Rightarrow>
          (case ds_value_and_grad eng ds (loss_fn state batch rng_key) (params state) of
             (ds', is_fin, loss, grads) \<Rightarrow>
               (let state1 = state\<lparr>dynamic_scale := Some ds'\<rparr>;
                    new_state = apply_gradients state1 grads;
                    new_state = new_state
                      \<lparr>opt_state := tree_where is_fin (opt_state new_state) (opt_state state1),
                       params := tree_where is_fin (params new_state) (params state1),
                       dynamic_scale := Some ds'\<rparr>
                in (new_state,
                    [(''Train LM Loss'', loss), (''Train LM PPL'', exp loss),
                     (''Loss Scale'', scale ds')])))
      | None \<Rightarrow>
          (case value_and_grad eng (loss_fn state batch rng_key) (params state) of
             (loss, grads) \<Rightarrow>
               (let grads = (case param_spec of
                               Some spec \<Rightarrow> with_sharding_constraint grads spec
                             | None \<Rightarrow> grads);
                    new_state = apply_gradients state grads
                in (new_state, [(''Train LM Loss'', loss), (''Train LM PPL'', exp loss)]))))"

definition eval_step :: "('p, 'o, 'b, 'k, 'g) TrainState \<Rightarrow> 'b \<Rightarrow> metrics" where
  "eval_step state batch =
     (let loss = apply_fn state (params state) batch False None
      in [(''Validation LM Loss'', loss), (''Validation LM PPL'', exp loss)])"

section \<open>Durable storage and the checkpoint manager (lines 56-76)\<close>

text \<open>
  Durable storage as the driver sees it: for every checkpoint directory the
  \<^verbatim>\<open>checkpoint_<step>\<close> entries the checkpoint library keeps there (step and saved
  state, ascending by step), the local files written and read with \<^verbatim>\<open>open\<close>, and the
  objects of the buckets, addressed by bucket and object name. \<open>local_dirs\<close> are the
  directories of the local file system that exist: \<^verbatim>\<open>open(path, "wb")\<close> raises
  \<^verbatim>\<open>FileNotFoundError\<close> when the directory of the path does not. A blob holds what was
  serialised into it: \<^verbatim>\<open>to_bytes\<close> and \<^verbatim>\<open>from_bytes\<close> are taken as inverse, so the
  model stores the value. The library's own writes and the uploads to the bucket are taken
  to succeed.
\<close>

record ('s, 'o) storage =
  checkpoint_dirs :: "string \<Rightarrow> (int \<times> 's) list"
  local_dirs :: "string set"
  local_files :: "string \<Rightarrow> 'o option"
  bucket_blobs :: "string option \<times> string \<Rightarrow> 'o option"

text \<open>
  Modelled from the spec: \<^verbatim>\<open>checkpoints.save_checkpoint(workdir, state, step, keep,
  overwrite=True)\<close> of the checkpoint library, which is not among the sources. Spec 4.6 and
  6: the primary blob is written as the \<^verbatim>\<open>checkpoint_<step>\<close> entry of the directory
  (an entry of the same step is overwritten); retention keeps at most \<open>keep\<close> most recent
  primary checkpoints, older ones are pruned.
\<close>

definition lib_save_checkpoint :: "(int \<times> 's) list \<Rightarrow> 's \<Rightarrow> int \<Rightarrow> nat \<Rightarrow> (int \<times> 's) list" where
  "lib_save_checkpoint entries target st keep =
     (let written = insort_key fst (st, target) (filter (\<lambda>e. fst e \<noteq> st) entries)
      in drop (length written - keep) written)"

text \<open>A path that starts with \<^verbatim>\<open>gs://\<close> is the URI of a place in a bucket.\<close>

definition gs_uri :: "string \<Rightarrow> bool" where
  "gs_uri path = (take 5 path = ''gs://'')"

text \<open>
  Modelled from the spec: what the same library call leaves of local directories. Spec 6:
  durable storage is addressed by a path or a URI. Once the primary blob is written under a
  local \<^verbatim>\<open>workdir\<close>, that directory exists; a \<^verbatim>\<open>gs://\<close> URI addresses the bucket and
  leaves the local file system as it was.
\<close>

definition lib_save_dirs :: "string set \<Rightarrow> string \<Rightarrow> string set" where
  "lib_save_dirs dirs workdir = (if gs_uri workdir then dirs else insert workdir dirs)"

text \<open>
  \<^verbatim>\<open>save_checkpoint(state, workdir, bucket_path=None, client=None)\<close>;
  \<^verbatim>\<open>jax.process_index()\<close> is the first argument. The result is the storage after the
  call and the exception the call raised, if any: the primary checkpoint is written before
  the optimizer state, so it stays written when \<^verbatim>\<open>open(f"{workdir}/opt_state.msgpack",
  "wb")\<close> raises because \<^verbatim>\<open>workdir\<close> is not a local directory.
\<close>

definition save_checkpoint ::
  "int \<Rightarrow> ('p, 'o, 'b, 'k, 'g) TrainState \<Rightarrow> string \<Rightarrow> string option \<Rightarrow> unit option \<Rightarrow>
     (('p, 'o, 'b, 'k, 'g) TrainState, 'o) storage \<Rightarrow>
     (('p, 'o, 'b, 'k, 'g) TrainState, 'o) storage \<times> error option" where
  "save_checkpoint process_index state workdir bucket_path client store =
     (if process_index = 0 then
        (let st = step state;
             store = store\<lparr>checkpoint_dirs := (checkpoint_dirs store)
                       (workdir := lib_save_checkpoint (checkpoint_dirs store workdir) state st 3),
                     local_dirs := lib_save_dirs (local_dirs store) workdir\<rparr>
         in (case client of
               Some c \<Rightarrow>
                 (store\<lparr>bucket_blobs := (bucket_blobs store)
                          ((bucket_path, ''checkpoints/opt_state.msgpack'') \<mapsto> opt_state state)\<rparr>,
                  None)
             | None \<Rightarrow>
                 (if workdir \<in> local_dirs store
                  then (store\<lparr>local_files := (local_files store)
                                (workdir @ ''/opt_state.msgpack'' \<mapsto> opt_state state)\<rparr>,
                        None)
                  else (store, Some FileNotFoundError))))
      else (store, None))"

text \<open>
  \<^verbatim>\<open>restore_checkpoint(state, workdir)\<close> returns
  \<^verbatim>\<open>checkpoints.restore_checkpoint(workdir, state)\<close>. The library routine is a parameter:
  it is given the entries of the directory and the target state, and returns a state or
  raises.
\<close>

definition restore_checkpoint ::
  "((int \<times> 's) list \<Rightarrow> 's \<Rightarrow> error + 's) \<Rightarrow> ('s, 'o) storage \<Rightarrow> 's \<Rightarrow> string \<Rightarrow> error + 's" where
  "restore_checkpoint lib_restore store state workdir =
     lib_restore (checkpoint_dirs store workdir) state"

text \<open>
  A sequence of save cycles on one process into one destination: the storage after the
  calls, whether or not one of them raised.
\<close>

definition save_cycles ::
  "int \<Rightarrow> string \<Rightarrow> string option \<Rightarrow> unit option \<Rightarrow> ('p, 'o, 'b, 'k, 'g) TrainState list \<Rightarrow>
     (('p, 'o, 'b, 'k, 'g) TrainState, 'o) storage \<Rightarrow> (('p, 'o, 'b, 'k, 'g) TrainState, 'o) storage" where
  "save_cycles process_index workdir bucket_path client states store =
     foldl (\<lambda>store state. fst (save_checkpoint process_index state workdir bucket_path client store))
       store states"

section \<open>Configuration and runtime\<close>

text \<open>
  The fields of the configuration the embedded code reads: \<^verbatim>\<open>cfg.device.dp_devices\<close>,
  \<^verbatim>\<open>cfg.device.mp_devices\<close>, \<^verbatim>\<open>cfg.training.gradient_accumulation_steps\<close>,
  \<^verbatim>\<open>cfg.training.total_steps\<close>, \<^verbatim>\<open>cfg.training.evaluation_frequency\<close>,
  \<^verbatim>\<open>cfg.training.maximum_evaluation_steps\<close>, \<^verbatim>\<open>cfg.data.bucket_path\<close> and
  \<^verbatim>\<open>cfg.data.checkpoint_directory\<close>.
\<close>

record config =
  dp_devices :: int
  mp_devices :: int
  gradient_accumulation_steps :: int
  total_steps :: int
  evaluation_frequency :: int
  maximum_evaluation_steps :: int
  data_bucket_path :: "string option"
  checkpoint_directory :: string

text \<open>
  What \<^verbatim>\<open>main\<close> holds about the process it runs in: \<^verbatim>\<open>jax.process_index()\<close> and the
  local variables \<^verbatim>\<open>save_to_bucket\<close>, \<^verbatim>\<open>client\<close> and \<^verbatim>\<open>bucket_path\<close> (lines 101-112).
\<close>

record runtime =
  rt_process_index :: int
  rt_save_to_bucket :: bool
  rt_client :: "unit option"
  rt_bucket_path :: "string option"

text \<open>
  \<^verbatim>\<open>f"gs://{cfg.data.bucket_path}/{cfg.data.checkpoint_directory}"\<close>; Python formats
  \<^verbatim>\<open>None\<close> as the text \<^verbatim>\<open>None\<close>.
\<close>

definition gs_workdir :: "config \<Rightarrow> string" where
  "gs_workdir cfg =
     ''gs://'' @ (case data_bucket_path cfg of None \<Rightarrow> ''None'' | Some b \<Rightarrow> b) @ ''/'' @
       checkpoint_directory cfg"

section \<open>State builder (main, lines 141-278)\<close>

text \<open>
  \<^verbatim>\<open>restore_state(params, step, opt_state)\<close>, the re-assembly of a restored state; \<open>tx0\<close>
  and \<open>model_apply\<close> are the optimizer and the model's forward function of the enclosing
  scope. The state is built without a \<^verbatim>\<open>dynamic_scale\<close> argument, so the field has the
  class's default, taken to be \<^verbatim>\<open>None\<close>.
\<close>

definition restore_state ::
  "('g \<Rightarrow> 'o \<Rightarrow> 'p \<Rightarrow> 'p \<times> 'o) \<Rightarrow> ('p \<Rightarrow> 'b \<Rightarrow> bool \<Rightarrow> 'k option \<Rightarrow> real) \<Rightarrow>
     'p \<Rightarrow> int \<Rightarrow> 'o \<Rightarrow> ('p, 'o, 'b, 'k, 'g) TrainState" where
  "restore_state tx0 model_apply ps st opt =
     \<lparr>step = st, params = ps, opt_state = opt, apply_fn = model_apply, tx = tx0,
      dynamic_scale = None\<rparr>"

text \<open>
  The construction of the state and of \<^verbatim>\<open>resume_step\<close>. \<open>resume\<close> is \<^verbatim>\<open>args.resume\<close>;
  \<open>template\<close> is the state \<^verbatim>\<open>create_train_state\<close> returns and \<open>sharded\<close> the state the
  sharded initialisation returns (neither function is among the sources). The result is
  the state and \<^verbatim>\<open>resume_step\<close> (\<open>None\<close> when it was not set).
\<close>

definition build_state ::
  "((int \<times> ('p, 'o, 'b, 'k, 'g) TrainState) list \<Rightarrow> ('p, 'o, 'b, 'k, 'g) TrainState \<Rightarrow>
      error + ('p, 'o, 'b, 'k, 'g) TrainState) \<Rightarrow>
   bool \<Rightarrow> config \<Rightarrow> runtime \<Rightarrow> ('p, 'o, 'b, 'k, 'g) TrainState \<Rightarrow> ('p, 'o, 'b, 'k, 'g) TrainState \<Rightarrow>
   ('g \<Rightarrow> 'o \<Rightarrow> 'p \<Rightarrow> 'p \<times> 'o) \<Rightarrow> ('p \<Rightarrow> 'b \<Rightarrow> bool \<Rightarrow> 'k option \<Rightarrow> real) \<Rightarrow>
   (('p, 'o, 'b, 'k, 'g) TrainState, 'o) storage \<Rightarrow>
   error + (('p, 'o, 'b, 'k, 'g) TrainState \<times> int option)" where
  "build_state lib_restore resume cfg rt template sharded tx0 model_apply store =
     (if mp_devices cfg = 1 then
        (if resume then
           (case (if rt_save_to_bucket rt
                  then restore_checkpoint lib_restore store template (gs_workdir cfg)
                  else restore_checkpoint lib_restore store template (checkpoint_directory cfg)) of
              Inl e \<Rightarrow> Inl e
            | Inr state \<Rightarrow> Inr (state, Some (step state)))
         else Inr (template, None))
      else
        (if resume then
           (if rt_save_to_bucket rt then
              (case bucket_blobs store (rt_bucket_path rt, ''checkpoints/opt_state.msgpack'') of
                 None \<Rightarrow> Inl NotFound
               | Some opt_bytes \<Rightarrow>
                   (case restore_checkpoint lib_restore store template (gs_workdir cfg) of
                      Inl e \<Rightarrow> Inl e
                    | Inr state \<Rightarrow>
                        Inr (restore_state tx0 model_apply (params state) (step state) opt_bytes,
                             Some (step state))))
            else
              (case restore_checkpoint lib_restore store template (checkpoint_directory cfg) of
                 Inl e \<Rightarrow> Inl e
               | Inr state \<Rightarrow>
                   (case local_files store (checkpoint_directory cfg @ ''/opt_state.msgpack'') of
                      None \<Rightarrow> Inl FileNotFoundError
                    | Some opt_bytes \<Rightarrow>
                        Inr (restore_state tx0 model_apply (params state) (step state) opt_bytes,
                             Some (step state)))))
         else Inr (sharded, None)))"

section \<open>Training loop (main, lines 393-541)\<close>

text \<open>
  What one process does in the loop, in order: a train step on the microbatch of an
  index, the averaging of the running metrics at the end of an accumulation window (with
  the per-microbatch metrics averaged), an evaluation (with the metrics of its
  microbatches), a call of the metrics sink, and a call of \<^verbatim>\<open>save_checkpoint\<close>.
\<close>

datatype event =
    TrainStep int
  | WindowAverage int "metrics list"
  | Evaluation int "metrics list"
  | LogMetrics int
  | SaveCheckpoint int

text \<open>
  The variables the loop updates: \<^verbatim>\<open>state\<close>, \<^verbatim>\<open>rng\<close>, \<^verbatim>\<open>running_metrics\<close>, the
  durable storage, and the events so far.
\<close>

record ('p, 'o, 'b, 'k, 'g) loop_state =
  ls_state :: "('p, 'o, 'b, 'k, 'g) TrainState"
  ls_rng :: 'k
  ls_running_metrics :: "metrics list"
  ls_store :: "(('p, 'o, 'b, 'k, 'g) TrainState, 'o) storage"
  ls_trace :: "event list"

text \<open>
  What the loop reads and does not change: the engine, the configuration, the runtime,
  \<^verbatim>\<open>resume_step\<close>, \<^verbatim>\<open>param_spec\<close>, \<^verbatim>\<open>jax.random.split(rng, 2)\<close>,
  \<^verbatim>\<open>text.reshape(-1, seq_len)\<close> (which raises when the sizes do not fit) and the batches
  of the validation loader.
\<close>

record ('p, 'b, 'k, 'g, 's) driver =
  d_engine :: "('p, 'g) engine"
  d_cfg :: config
  d_rt :: runtime
  d_resume_step :: "int option"
  d_param_spec :: 's
  d_split :: "'k \<Rightarrow> 'k \<times> 'k"
  d_reshape :: "'b \<Rightarrow> int \<Rightarrow> error + 'b"
  d_validation :: "'b list"

datatype 'a control = Continue 'a | Return 'a

text \<open>
  \<^verbatim>\<open>pjit_train_step\<close> (lines 397-417): \<^verbatim>\<open>train_step\<close> itself in a pure data-parallel
  run, \<^verbatim>\<open>partial(train_step, param_spec=param_spec)\<close> otherwise.
\<close>

definition pjit_train_step ::
  "('p, 'b, 'k, 'g, 's) driver \<Rightarrow> ('p, 'o, 'b, 'k, 'g) TrainState \<Rightarrow> 'b \<Rightarrow> 'k \<Rightarrow>
     ('p, 'o, 'b, 'k, 'g) TrainState \<times> metrics" where
  "pjit_train_step d state text dropout_rng =
     train_step (d_engine d) state text (Some dropout_rng)
       (if mp_devices (d_cfg d) = 1 then None else Some (d_param_spec d))"

text \<open>The call of \<^verbatim>\<open>save_checkpoint\<close> after an evaluation (lines 511-531).\<close>

definition checkpoint_after_eval ::
  "('p, 'b, 'k, 'g, 's) driver \<Rightarrow> ('p, 'o, 'b, 'k, 'g) TrainState \<Rightarrow>
     (('p, 'o, 'b, 'k, 'g) TrainState, 'o) storage \<Rightarrow>
     (('p, 'o, 'b, 'k, 'g) TrainState, 'o) storage \<times> error option" where
  "checkpoint_after_eval d state store =
     (if mp_devices (d_cfg d) > 1 then
        save_checkpoint (rt_process_index (d_rt d)) state (gs_workdir (d_cfg d))
          (rt_bucket_path (d_rt d)) (rt_client (d_rt d)) store
      else if rt_save_to_bucket (d_rt d) then
        save_checkpoint (rt_process_index (d_rt d)) state (gs_workdir (d_cfg d)) None None store
      else
        save_checkpoint (rt_process_index (d_rt d)) state (checkpoint_directory (d_cfg d)) None None
          store)"

text \<open>
  The end of an accumulation window (lines 460-541): the running metrics are averaged and
  cleared; when the index is a multiple of \<^verbatim>\<open>evaluation_frequency *
  gradient_accumulation_steps\<close> the validation loader is read up to
  \<^verbatim>\<open>maximum_evaluation_steps\<close> batches, element 0 of the collected metrics is read, and
  process 0 logs and saves a checkpoint, whose exception ends the run; otherwise process 0
  logs. The wall-clock metric and the token count are not modelled.
\<close>

definition window ::
  "('p, 'b, 'k, 'g, 's) driver \<Rightarrow> int \<Rightarrow> ('p, 'o, 'b, 'k, 'g) loop_state \<Rightarrow>
     error + ('p, 'o, 'b, 'k, 'g) loop_state control" where
  "window d i s =
     (let cfg = d_cfg d;
          s = s\<lparr>ls_running_metrics := [],
                ls_trace := ls_trace s @ [WindowAverage i (ls_running_metrics s)]\<rparr>
      in if evaluation_frequency cfg * gradient_accumulation_steps cfg = 0
         then Inl ZeroDivisionError
         else if i mod (evaluation_frequency cfg * gradient_accumulation_steps cfg) = 0 then
           (let validation_metrics =
                  map (eval_step (ls_state s))
                    (take (nat (maximum_evaluation_steps cfg)) (d_validation d))
            in if validation_metrics = [] then Inl IndexError
               else if rt_process_index (d_rt d) = 0 then
                 (case checkpoint_after_eval d (ls_state s) (ls_store s) of
                    (store, Some e) \<Rightarrow> Inl e
                  | (store, None) \<Rightarrow>
                      Inr (Continue (s
                        \<lparr>ls_store := store,
                         ls_trace := ls_trace s @
                           [Evaluation i validation_metrics, LogMetrics i, SaveCheckpoint i]\<rparr>)))
               else Inr (Continue (s\<lparr>ls_trace := ls_trace s @ [Evaluation i validation_metrics]\<rparr>)))
         else if rt_process_index (d_rt d) = 0 then
           Inr (Continue (s\<lparr>ls_trace := ls_trace s @ [LogMetrics i]\<rparr>))
         else Inr (Continue s))"

text \<open>
  One iteration of \<^verbatim>\<open>for i, text in enumerate(tl)\<close> (lines 429-459): the budget test
  that ends the run, the resume skip-guard, the new dropout key, the reshape to the
  sequence length, the train step, and the test for the end of an accumulation window.
\<close>

definition loop_body ::
  "('p, 'b, 'k, 'g, 's) driver \<Rightarrow> int \<Rightarrow> 'b \<Rightarrow> ('p, 'o, 'b, 'k, 'g) loop_state \<Rightarrow>
     error + ('p, 'o, 'b, 'k, 'g) loop_state control" where
  "loop_body d i text s =
     (let cfg = d_cfg d in
      if gradient_accumulation_steps cfg = 0 then Inl ZeroDivisionError
      else if i div gradient_accumulation_steps cfg > total_steps cfg then Inr (Return s)
      else if (case d_resume_step d of Some resume_step \<Rightarrow> i \<le> resume_step | None \<Rightarrow> False)
      then Inr (Continue s)
      else
        (case d_split d (ls_rng s) of
           (rng, dropout_rng) \<Rightarrow>
             (case d_reshape d text (step_to_seq i) of
                Inl e \<Rightarrow> Inl e
              | Inr text \<Rightarrow>
                  (case pjit_train_step d (ls_state s) text dropout_rng of
                     (state, metrics) \<Rightarrow>
                       (let metrics = metrics @
                              [(''Train Sequence Length'', of_int (step_to_seq i))];
                            s = s\<lparr>ls_state := state, ls_rng := rng,
                                  ls_running_metrics := ls_running_metrics s @ [metrics],
                                  ls_trace := ls_trace s @ [TrainStep i]\<rparr>
                        in if i mod gradient_accumulation_steps cfg = 0 then window d i s
                           else Inr (Continue s))))))"

text \<open>The loop over the batches of the training loader, from index \<open>i\<close> on.\<close>

fun run_loop ::
  "('p, 'b, 'k, 'g, 's) driver \<Rightarrow> int \<Rightarrow> 'b list \<Rightarrow> ('p, 'o, 'b, 'k, 'g) loop_state \<Rightarrow>
     error + ('p, 'o, 'b, 'k, 'g) loop_state" where
  "run_loop d i [] s = Inr s"
| "run_loop d i (text # rest) s =
     (case loop_body d i text s of
        Inl e \<Rightarrow> Inl e
      | Inr (Return s') \<Rightarrow> Inr s'
      | Inr (Continue s') \<Rightarrow> run_loop d (i + 1) rest s')"

text \<open>The indices of the microbatches a trace has a train step for, in order.\<close>

fun train_steps :: "event list \<Rightarrow> int list" where
  "train_steps [] = []"
| "train_steps (TrainStep i # es) = i # train_steps es"
| "train_steps (e # es) = train_steps es"

section \<open>A concrete run of the train step\<close>

text \<open>
  A small instance on which the definitions above compute: parameters, optimizer state
  and batches are integers, the gradient is an optional integer (\<open>None\<close> stands for a
  gradient with a NaN leaf), and the scaled differentiation overflows.
\<close>

definition overflow_engine :: "(int, int option) engine" where
  "overflow_engine =
     \<lparr>value_and_grad = (\<lambda>f p. (f p, Some 1)),
      scaled_value_and_grad = (\<lambda>s f p. (f p, None)),
      all_finite = (\<lambda>g. g \<noteq> None)\<rparr>"

definition half_precision_scale :: DynamicScale where
  "half_precision_scale =
     \<lparr>scale = 65536, growth_counter = 0, growth_factor = 2, backoff_factor = 1 / 2,
      growth_interval = 2000\<rparr>"

definition scaled_state :: "(int, int, int, unit, int option) TrainState" where
  "scaled_state =
     \<lparr>step = 3, params = 5, opt_state = 7,
      apply_fn = (\<lambda>p b train key. 0),
      tx = (\<lambda>g opt p. (p - 1, opt + 1)),
      dynamic_scale = Some half_precision_scale\<rparr>"

section \<open>A concrete run of the driver\<close>

text \<open>
  A small run on which the loop and the checkpoint manager compute: a pure data-parallel
  run on process 0 without a bucket, accumulation factor 2, an evaluation every 3 steps of
  at most 2 microbatches, and a validation loader of 3 batches.
\<close>

definition plain_engine :: "(int, int option) engine" where
  "plain_engine =
     \<lparr>value_and_grad = (\<lambda>f p. (f p, Some 1)),
      scaled_value_and_grad = (\<lambda>s f p. (f p, Some 1)),
      all_finite = (\<lambda>g. g \<noteq> None)\<rparr>"

definition fresh_state :: "(int, int, int, unit, int option) TrainState" where
  "fresh_state =
     \<lparr>step = 0, params = 5, opt_state = 7,
      apply_fn = (\<lambda>p b train key. 0),
      tx = (\<lambda>g opt p. (p - 1, opt + 1)),
      dynamic_scale = None\<rparr>"

definition small_cfg :: config where
  "small_cfg =
     \<lparr>dp_devices = 1, mp_devices = 1, gradient_accumulation_steps = 2, total_steps = 10,
      evaluation_frequency = 3, maximum_evaluation_steps = 2, data_bucket_path = None,
      checkpoint_directory = ''checkpoints''\<rparr>"

text \<open>The same run on a 2 x 2 mesh.\<close>

definition sharded_cfg :: config where
  "sharded_cfg = small_cfg\<lparr>dp_devices := 2, mp_devices := 2\<rparr>"

definition local_rt :: runtime where
  "local_rt =
     \<lparr>rt_process_index = 0, rt_save_to_bucket = False, rt_client = None,
      rt_bucket_path = None\<rparr>"

text \<open>
  The same pure data-parallel run on a TPU host with a bucket configured (lines 104-112):
  \<^verbatim>\<open>save_to_bucket\<close> is set, and the checkpoints go to the \<^verbatim>\<open>gs://\<close> working directory.
\<close>

definition bucket_cfg :: config where
  "bucket_cfg = small_cfg\<lparr>data_bucket_path := Some ''bucket''\<rparr>"

definition bucket_rt :: runtime where
  "bucket_rt =
     \<lparr>rt_process_index = 0, rt_save_to_bucket = True, rt_client = Some (),
      rt_bucket_path = Some ''bucket''\<rparr>"

definition small_driver :: "int option \<Rightarrow> (int, int, unit, int option, unit) driver" where
  "small_driver r =
     \<lparr>d_engine = plain_engine, d_cfg = small_cfg, d_rt = local_rt, d_resume_step = r,
      d_param_spec = (), d_split = (\<lambda>k. (k, k)), d_reshape = (\<lambda>b n. Inr b),
      d_validation = [1, 2, 3]\<rparr>"

definition bucket_driver :: "(int, int, unit, int option, unit) driver" where
  "bucket_driver = (small_driver None)\<lparr>d_cfg := bucket_cfg, d_rt := bucket_rt\<rparr>"

definition empty_store :: "((int, int, int, unit, int option) TrainState, int) storage" where
  "empty_store =
     \<lparr>checkpoint_dirs = (\<lambda>d. []), local_dirs = {}, local_files = (\<lambda>f. None),
      bucket_blobs = (\<lambda>b. None)\<rparr>"

definition start ::
  "(int, int, int, unit, int option) TrainState \<Rightarrow>
     ((int, int, int, unit, int option) TrainState, int) storage \<Rightarrow>
     (int, int, int, unit, int option) loop_state" where
  "start st store =
     \<lparr>ls_state = st, ls_rng = (), ls_running_metrics = [], ls_store = store, ls_trace = []\<rparr>"

text \<open>The state \<open>fresh_state\<close> after \<open>n\<close> steps, for the checkpoints of the run.\<close>

definition state_at :: "int \<Rightarrow> (int, int, int, unit, int option) TrainState" where
  "state_at n = fresh_state\<lparr>step := n\<rparr>"

text \<open>
  The checkpoint library's restore is not among the sources. This instance returns the
  newest checkpoint of the directory, and the target unchanged when the directory holds
  none, which is what the documentation of \<^verbatim>\<open>flax.training.checkpoints.restore_checkpoint\<close>
  states.
\<close>

definition latest_or_target :: "(int \<times> 's) list \<Rightarrow> 's \<Rightarrow> error + 's" where
  "latest_or_target entries target =
     (case entries of [] \<Rightarrow> Inr target | e # es \<Rightarrow> Inr (snd (last entries)))"

section \<open>Where a resume request reads from (lines 153-160 and 228-245)\<close>

definition resume_workdir :: "config \<Rightarrow> runtime \<Rightarrow> string" where
  "resume_workdir cfg rt =
     (if rt_save_to_bucket rt then gs_workdir cfg else checkpoint_directory cfg)"

definition opt_state_blob :: "config \<Rightarrow> runtime \<Rightarrow> ('s, 'o) storage \<Rightarrow> 'o option" where
  "opt_state_blob cfg rt store =
     (if rt_save_to_bucket rt
      then bucket_blobs store (rt_bucket_path rt, ''checkpoints/opt_state.msgpack'')
      else local_files store (checkpoint_directory cfg @ ''/opt_state.msgpack''))"

section \<open>Properties of the mesh shape check\<close>

lemma check_mesh_shape_pos:
  assumes "0 < dp * mp"
  shows "check_mesh_shape num_devices dp mp = Inr () \<longleftrightarrow>
           dp * mp \<le> num_devices \<and> num_devices < 2 * (dp * mp)"
proof -
  define p where "p = dp * mp"
  have p: "0 < p" using assms by (simp add: p_def)
  have "num_devices div p = 1 \<longleftrightarrow> p \<le> num_devices \<and> num_devices < 2 * p"
  proof
    assume h: "num_devices div p = 1"
    have "num_devices = p * (num_devices div p) + num_devices mod p" by simp
    with h have e: "num_devices = p + num_devices mod p" by simp
    have "0 \<le> num_devices mod p" "num_devices mod p < p" using p by simp_all
    with e show "p \<le> num_devices \<and> num_devices < 2 * p" by linarith
  next
    assume h: "p \<le> num_devices \<and> num_devices < 2 * p"
    have "num_devices div p = 1"
    proof (rule int_div_pos_eq [where r = "num_devices - p"])
      show "num_devices = p * 1 + (num_devices - p)" by simp
      show "0 \<le> num_devices - p" using h by simp
      show "num_devices - p < p" using h by simp
    qed
    then show "num_devices div p = 1" .
  qed
  then show ?thesis using p by (simp add: check_mesh_shape_def p_def)
qed

lemma check_mesh_shape_equal:
  "dp * mp = num_devices \<Longrightarrow> num_devices \<noteq> 0 \<Longrightarrow>
     check_mesh_shape num_devices dp mp = Inr ()"
  by (simp add: check_mesh_shape_def)

text \<open>
  C2: startup fails if and only if \<open>dp_size * mp_size\<close> differs from the device count.
  The assertion compares a floor quotient with 1, so it also passes when the device count
  lies strictly between the product and twice the product: 8 devices pass the check with
  a 3 x 2 mesh, although \<open>3 * 2 \<noteq> 8\<close>.
\<close>

theorem mesh_check_accepts_mismatch:
  "check_mesh_shape 8 3 2 = Inr () \<and> (3::int) * 2 \<noteq> 8"
  by (simp add: check_mesh_shape_def)

section \<open>Properties of the curriculum\<close>

lemma step_to_seq_mono: "s1 \<le> s2 \<Longrightarrow> step_to_seq s1 \<le> step_to_seq s2"
  by (simp add: step_to_seq_def)

text \<open>
  C3: for stages [(0,128),(1000,512)] with warmup 1000 the sequence length is 128 at steps
  0 and 999. The length the driver uses ignores the stages: it is 512 at every step.
\<close>

theorem step_to_seq_ignores_stages:
  "step_to_seq 0 = 512 \<and> step_to_seq 999 = 512 \<and> step_to_seq 0 \<noteq> 128 \<and> step_to_seq 999 \<noteq> 128"
  by (simp add: step_to_seq_def)

section \<open>Properties of the train step\<close>

lemma adjust_scale_overflow:
  "0 < scale ds \<Longrightarrow> backoff_factor ds < 1 \<Longrightarrow> scale (adjust_scale ds False) < scale ds"
  by (simp add: adjust_scale_def)

text \<open>
  C1: when dynamic loss scaling is enabled and the computed gradient contains a non-finite
  value, the returned state has the params and the opt_state of the state passed in, its
  step counter is one more, and its loss scale is smaller. The loss scale passed in is
  positive and the backoff factor is below one.
\<close>

theorem train_step_nonfinite_rollback:
  assumes "dynamic_scale state = Some ds"
    and "\<not> all_finite eng
            (snd (scaled_value_and_grad eng (scale ds) (loss_fn state batch rng_key) (params state)))"
    and "0 < scale ds" and "backoff_factor ds < 1"
  shows "params (fst (train_step eng state batch rng_key param_spec)) = params state \<and>
         opt_state (fst (train_step eng state batch rng_key param_spec)) = opt_state state \<and>
         step (fst (train_step eng state batch rng_key param_spec)) = step state + 1 \<and>
         (case dynamic_scale (fst (train_step eng state batch rng_key param_spec)) of
            Some ds' \<Rightarrow> scale ds' < scale ds
          | None \<Rightarrow> False)"
proof -
  obtain loss grads where sg:
    "scaled_value_and_grad eng (scale ds) (loss_fn state batch rng_key) (params state) = (loss, grads)"
    by (cases "scaled_value_and_grad eng (scale ds) (loss_fn state batch rng_key) (params state)")
  with assms(2) have nf: "\<not> all_finite eng grads" by simp
  have dv: "ds_value_and_grad eng ds (loss_fn state batch rng_key) (params state) =
              (adjust_scale ds False, False, loss, grads)"
    using sg nf by (simp add: ds_value_and_grad_def)
  have lt: "scale (adjust_scale ds False) < scale ds"
    using assms(3,4) by (rule adjust_scale_overflow)
  show ?thesis
    using assms(1) dv lt
    by (simp add: train_step_def tree_where_def apply_gradients_def Let_def split: prod.splits)
qed

theorem train_step_nonfinite_rollback_witness:
  "params (fst (train_step overflow_engine scaled_state 11 (Some ()) (None :: unit option))) = 5 \<and>
   opt_state (fst (train_step overflow_engine scaled_state 11 (Some ()) (None :: unit option))) = 7 \<and>
   step (fst (train_step overflow_engine scaled_state 11 (Some ()) (None :: unit option))) = 4 \<and>
   (case dynamic_scale (fst (train_step overflow_engine scaled_state 11 (Some ()) (None :: unit option))) of
      Some ds' \<Rightarrow> scale ds' < scale half_precision_scale
    | None \<Rightarrow> False)"
proof -
  have h1: "dynamic_scale scaled_state = Some half_precision_scale"
    by (simp add: scaled_state_def)
  have h2: "\<not> all_finite overflow_engine
              (snd (scaled_value_and_grad overflow_engine (scale half_precision_scale)
                      (loss_fn scaled_state 11 (Some ())) (params scaled_state)))"
    by (simp add: overflow_engine_def)
  have h3: "0 < scale half_precision_scale"
    by (simp add: half_precision_scale_def)
  have h4: "backoff_factor half_precision_scale < 1"
    by (simp add: half_precision_scale_def)
  show ?thesis
    using train_step_nonfinite_rollback [OF h1 h2 h3 h4, of "None :: unit option"]
    by (simp add: scaled_state_def)
qed

section \<open>Properties of the checkpoint manager\<close>

lemma length_lib_save: "length (lib_save_checkpoint entries target st keep) \<le> keep"
  by (simp add: lib_save_checkpoint_def Let_def)

lemma dirs_save0:
  "checkpoint_dirs (fst (save_checkpoint 0 state workdir bp cl store)) workdir =
     lib_save_checkpoint (checkpoint_dirs store workdir) state (step state) 3"
  by (simp add: save_checkpoint_def Let_def split: option.splits)

lemma save_cycles_snoc:
  "save_cycles pidx workdir bp cl (states @ [state]) store =
     fst (save_checkpoint pidx state workdir bp cl (save_cycles pidx workdir bp cl states store))"
  by (simp add: save_cycles_def)

lemma save_cycles_bound:
  assumes "states \<noteq> []"
  shows "length (checkpoint_dirs (save_cycles 0 workdir bp cl states store) workdir) \<le> 3"
proof -
  obtain ys y where "states = ys @ [y]"
    using assms by (cases states rule: rev_cases) auto
  then show ?thesis
    by (simp add: save_cycles_snoc dirs_save0 length_lib_save)
qed

lemma insort_key_snoc:
  "\<forall>x \<in> set xs. f x < f a \<Longrightarrow> insort_key f a xs = xs @ [a]"
  by (induction xs) auto

lemma lib_save_newest:
  assumes "\<forall>e \<in> set entries. fst e < st"
  shows "lib_save_checkpoint entries target st keep =
           drop (Suc (length entries) - keep) (entries @ [(st, target)])"
proof -
  have "filter (\<lambda>e. fst e \<noteq> st) entries = entries"
    using assms by (auto simp: filter_id_conv)
  moreover have "insort_key fst (st, target) entries = entries @ [(st, target)]"
    using assms by (intro insort_key_snoc) simp
  ultimately show ?thesis
    by (simp add: lib_save_checkpoint_def Let_def)
qed

lemma save_cycles_increasing:
  assumes "sorted_wrt (<) (map step states)" and "checkpoint_dirs store workdir = []"
  shows "checkpoint_dirs (save_cycles 0 workdir bp cl states store) workdir =
           drop (length states - 3) (map (\<lambda>s. (step s, s)) states)"
  using assms(1)
proof (induction states rule: rev_induct)
  case Nil
  then show ?case by (simp add: save_cycles_def assms(2))
next
  case (snoc y ys)
  from snoc.prems have inc: "sorted_wrt (<) (map step ys)" and below: "\<forall>s \<in> set ys. step s < step y"
    by (auto simp: sorted_wrt_append)
  let ?old = "drop (length ys - 3) (map (\<lambda>s. (step s, s)) ys)"
  have ih: "checkpoint_dirs (save_cycles 0 workdir bp cl ys store) workdir = ?old"
    using snoc.IH [OF inc] .
  have "\<forall>e \<in> set ?old. fst e < step y"
    using below by (auto dest!: in_set_dropD)
  then have "lib_save_checkpoint ?old y (step y) 3 =
               drop (Suc (length ?old) - 3) (?old @ [(step y, y)])"
    by (rule lib_save_newest)
  also have "\<dots> = drop (length (ys @ [y]) - 3) (map (\<lambda>s. (step s, s)) (ys @ [y]))"
  proof (cases "length ys \<le> 3")
    case True
    then show ?thesis by simp
  next
    case False
    then have "Suc (length ys - 3) = length ys - 2" by arith
    with False show ?thesis by simp
  qed
  finally show ?case
    by (simp add: save_cycles_snoc dirs_save0 ih)
qed

text \<open>
  C6: after more than three save cycles on process 0 the destination directory holds at most
  three primary checkpoints; when the directory was empty and the steps saved increase,
  they are the last three saved.
\<close>

theorem checkpoint_retention:
  assumes "3 < length states"
  shows "length (checkpoint_dirs (save_cycles 0 workdir bp cl states store) workdir) \<le> 3 \<and>
         (checkpoint_dirs store workdir = [] \<and> sorted_wrt (<) (map step states) \<longrightarrow>
            checkpoint_dirs (save_cycles 0 workdir bp cl states store) workdir =
              map (\<lambda>s. (step s, s)) (drop (length states - 3) states))"
proof -
  from assms have "states \<noteq> []" by auto
  then have "length (checkpoint_dirs (save_cycles 0 workdir bp cl states store) workdir) \<le> 3"
    by (rule save_cycles_bound)
  moreover have "checkpoint_dirs (save_cycles 0 workdir bp cl states store) workdir =
      map (\<lambda>s. (step s, s)) (drop (length states - 3) states)"
    if "checkpoint_dirs store workdir = []" "sorted_wrt (<) (map step states)"
    using save_cycles_increasing [OF that(2) that(1)] by (simp add: drop_map)
  ultimately show ?thesis by blast
qed

theorem checkpoint_retention_witness:
  "length (checkpoint_dirs
     (save_cycles 0 ''checkpoints'' None None [state_at 1, state_at 2, state_at 3, state_at 4]
        empty_store) ''checkpoints'') \<le> 3 \<and>
   map fst (checkpoint_dirs
     (save_cycles 0 ''checkpoints'' None None [state_at 1, state_at 2, state_at 3, state_at 4]
        empty_store) ''checkpoints'') = [2, 3, 4]"
proof -
  have n: "3 < length [state_at 1, state_at 2, state_at 3, state_at 4]" by simp
  have e: "checkpoint_dirs empty_store ''checkpoints'' = []" by (simp add: empty_store_def)
  have s: "sorted_wrt (<) (map step [state_at 1, state_at 2, state_at 3, state_at 4])"
    by (simp add: state_at_def)
  show ?thesis
    using checkpoint_retention [OF n, of "''checkpoints''" None None empty_store] e s
    by (simp add: state_at_def)
qed

text \<open>
  C7: a call of save_checkpoint on a process whose index is not 0 leaves the durable
  storage as it was, and raises nothing.
\<close>

theorem save_checkpoint_other_process_writes_nothing:
  "pidx \<noteq> 0 \<Longrightarrow> save_checkpoint pidx state workdir bp cl store = (store, None)"
  by (simp add: save_checkpoint_def)

theorem save_checkpoint_other_process_writes_nothing_witness:
  "save_checkpoint 1 (state_at 4) ''checkpoints'' None None empty_store = (empty_store, None)"
proof -
  have h: "(1::int) \<noteq> 0" by simp
  show ?thesis
    by (rule save_checkpoint_other_process_writes_nothing [OF h])
qed

text \<open>
  Where the optimizer state goes on process 0. With a client it is the object
  \<^verbatim>\<open>checkpoints/opt_state.msgpack\<close> of the bucket. Without one it is the file
  \<^verbatim>\<open>opt_state.msgpack\<close> of the working directory, and the call raises exactly when the
  working directory is a \<^verbatim>\<open>gs://\<close> URI that is no local directory. The mesh shape is not
  tested.
\<close>

lemma gs_uri_gs_workdir: "gs_uri (gs_workdir cfg)"
  by (simp add: gs_uri_def gs_workdir_def)

lemma save_checkpoint_with_client:
  "save_checkpoint 0 state workdir bp (Some c) store = (store', err) \<Longrightarrow>
     err = None \<and> bucket_blobs store' (bp, ''checkpoints/opt_state.msgpack'') = Some (opt_state state)"
  by (auto simp: save_checkpoint_def Let_def)

lemma save_checkpoint_without_client:
  "save_checkpoint 0 state workdir bp None store = (store', err) \<Longrightarrow>
     (if gs_uri workdir \<and> workdir \<notin> local_dirs store
      then err = Some FileNotFoundError \<and>
           local_files store' = local_files store \<and> bucket_blobs store' = bucket_blobs store
      else err = None \<and>
           local_files store' (workdir @ ''/opt_state.msgpack'') = Some (opt_state state))"
  by (auto simp: save_checkpoint_def lib_save_dirs_def Let_def split: if_splits)

lemma local_data_parallel_run_writes_opt_state:
  assumes "mp_devices (d_cfg d) = 1" and "rt_process_index (d_rt d) = 0"
    and "\<not> rt_save_to_bucket (d_rt d)" and "\<not> gs_uri (checkpoint_directory (d_cfg d))"
  shows "snd (checkpoint_after_eval d state store) = None \<and>
         local_files (fst (checkpoint_after_eval d state store))
           (checkpoint_directory (d_cfg d) @ ''/opt_state.msgpack'') = Some (opt_state state)"
  using assms
  by (simp add: checkpoint_after_eval_def save_checkpoint_def lib_save_dirs_def Let_def)

lemma bucket_data_parallel_run_raises:
  assumes "mp_devices (d_cfg d) = 1" and "rt_process_index (d_rt d) = 0"
    and "rt_save_to_bucket (d_rt d)" and "gs_workdir (d_cfg d) \<notin> local_dirs store"
  shows "snd (checkpoint_after_eval d state store) = Some FileNotFoundError \<and>
         local_files (fst (checkpoint_after_eval d state store)) = local_files store \<and>
         bucket_blobs (fst (checkpoint_after_eval d state store)) = bucket_blobs store"
  using assms gs_uri_gs_workdir [of "d_cfg d"]
  by (simp add: checkpoint_after_eval_def save_checkpoint_def lib_save_dirs_def Let_def)

text \<open>
  C9: every call of save_checkpoint on process 0 writes the optimizer state as a blob of
  its own, also in a pure data-parallel run. In the pure data-parallel run with a bucket
  the driver passes the \<^verbatim>\<open>gs://\<close> working directory and no client (lines 523-527): the
  primary checkpoint is written, the local \<^verbatim>\<open>open\<close> raises, no optimizer-state blob is
  written to the bucket or to a file, and the first iteration of the loop ends the run
  with that exception.
\<close>

theorem save_checkpoint_bucket_run_writes_no_opt_state:
  "gs_workdir bucket_cfg = ''gs://bucket/checkpoints'' \<and>
   snd (save_checkpoint 0 (state_at 1) ''gs://bucket/checkpoints'' None None empty_store) =
     Some FileNotFoundError \<and>
   map fst (checkpoint_dirs
     (fst (save_checkpoint 0 (state_at 1) ''gs://bucket/checkpoints'' None None empty_store))
     ''gs://bucket/checkpoints'') = [1] \<and>
   local_files
     (fst (save_checkpoint 0 (state_at 1) ''gs://bucket/checkpoints'' None None empty_store)) =
     (\<lambda>f. None) \<and>
   bucket_blobs
     (fst (save_checkpoint 0 (state_at 1) ''gs://bucket/checkpoints'' None None empty_store)) =
     (\<lambda>b. None) \<and>
   loop_body bucket_driver 0 10 (start fresh_state empty_store) = Inl FileNotFoundError"
  by (simp add: save_checkpoint_def lib_save_dirs_def lib_save_checkpoint_def gs_uri_def
      gs_workdir_def bucket_cfg_def small_cfg_def empty_store_def state_at_def
      bucket_driver_def small_driver_def bucket_rt_def plain_engine_def start_def fresh_state_def
      loop_body_def window_def pjit_train_step_def train_step_def apply_gradients_def
      eval_step_def checkpoint_after_eval_def step_to_seq_def Let_def)

section \<open>Properties of the training loop\<close>

lemma train_steps_append: "train_steps (xs @ ys) = train_steps xs @ train_steps ys"
  by (induction xs rule: train_steps.induct) simp_all

lemma window_train_steps:
  assumes "window d i s = Inr c"
  shows "\<exists>s'. c = Continue s' \<and> train_steps (ls_trace s') = train_steps (ls_trace s)"
  using assms
  by (auto simp: window_def Let_def train_steps_append split: if_splits prod.splits option.splits)

lemma loop_body_Return:
  assumes "loop_body d i text s = Inr (Return s')"
  shows "total_steps (d_cfg d) < i div gradient_accumulation_steps (d_cfg d) \<and> s' = s"
proof -
  have "False" if "window d i s1 = Inr (Return s')" for s1
    using window_train_steps [OF that] by auto
  then show ?thesis
    using assms
    by (auto simp: loop_body_def Let_def split: if_splits prod.splits sum.splits)
qed

lemma loop_body_Continue:
  assumes "loop_body d i text s = Inr (Continue s')"
  shows "i div gradient_accumulation_steps (d_cfg d) \<le> total_steps (d_cfg d) \<and>
         train_steps (ls_trace s') = train_steps (ls_trace s) @
           (if (case d_resume_step d of Some r \<Rightarrow> i \<le> r | None \<Rightarrow> False) then [] else [i])"
proof -
  have w: "train_steps (ls_trace s') = train_steps (ls_trace s1)"
    if "window d i s1 = Inr (Continue s')" for s1
    using window_train_steps [OF that] by auto
  show ?thesis
    using assms
    by (auto simp: loop_body_def Let_def train_steps_append split: if_splits prod.splits sum.splits
        dest!: w)
qed

lemma run_loop_train_steps:
  assumes "run_loop d i batches s = Inr s'"
  shows "train_steps (ls_trace s') = train_steps (ls_trace s) @
           filter (\<lambda>j. \<not> (case d_resume_step d of Some r \<Rightarrow> j \<le> r | None \<Rightarrow> False))
             (takeWhile (\<lambda>j. j div gradient_accumulation_steps (d_cfg d) \<le> total_steps (d_cfg d))
                (map (\<lambda>k. i + int k) [0..<length batches]))"
  using assms
proof (induction batches arbitrary: i s)
  case Nil
  then show ?case by simp
next
  case (Cons b rest)
  have shift: "map (\<lambda>k. i + int k) [0..<length (b # rest)] =
                 i # map (\<lambda>k. (i + 1) + int k) [0..<length rest]"
    by (simp add: map_upt_Suc del: upt_Suc) 
  show ?case
  proof (cases "loop_body d i b s")
    case (Inl e)
    with Cons.prems show ?thesis by simp
  next
    case (Inr c)
    show ?thesis
    proof (cases c)
      case (Return s1)
      with Inr Cons.prems have "s' = s1" by simp
      moreover from Inr Return loop_body_Return [of d i b s s1]
      have "total_steps (d_cfg d) < i div gradient_accumulation_steps (d_cfg d)" "s1 = s"
        by simp_all
      ultimately show ?thesis unfolding shift by simp
    next
      case (Continue s1)
      with Inr Cons.prems have r: "run_loop d (i + 1) rest s1 = Inr s'" by simp
      from Inr Continue loop_body_Continue [of d i b s s1]
      have b: "i div gradient_accumulation_steps (d_cfg d) \<le> total_steps (d_cfg d)"
        "train_steps (ls_trace s1) = train_steps (ls_trace s) @
           (if (case d_resume_step d of Some r \<Rightarrow> i \<le> r | None \<Rightarrow> False) then [] else [i])"
        by simp_all
      show ?thesis
        unfolding shift using Cons.IH [OF r] b by simp
    qed
  qed
qed

lemma build_state_resume_step:
  assumes "build_state lib_restore True cfg rt template sharded tx0 model_apply store = Inr (state, r)"
  shows "r = Some (step state)"
  using assms
  by (auto simp: build_state_def restore_state_def split: if_splits sum.splits option.splits)

text \<open>
  C5: after a resume, resume_step is the step of the restored state, and the loop trains
  on no microbatch with an index up to resume_step and on every microbatch with a greater
  index that it reaches before the step budget ends the run.
\<close>

theorem resume_skips_consumed_microbatches:
  assumes "build_state lib_restore True cfg rt template sharded tx0 model_apply store =
             Inr (state, resume_step)"
    and "d_resume_step d = resume_step"
    and "run_loop d 0 batches s = Inr s'"
  shows "resume_step = Some (step state) \<and>
         train_steps (ls_trace s') = train_steps (ls_trace s) @
           filter (\<lambda>i. step state < i)
             (takeWhile (\<lambda>i. i div gradient_accumulation_steps (d_cfg d) \<le> total_steps (d_cfg d))
                (map int [0..<length batches]))"
proof -
  have r: "resume_step = Some (step state)"
    using assms(1) by (rule build_state_resume_step)
  have "(\<lambda>j. \<not> (case d_resume_step d of Some r \<Rightarrow> j \<le> r | None \<Rightarrow> False)) = (\<lambda>i. step state < i)"
    using assms(2) r by (auto simp: fun_eq_iff)
  with run_loop_train_steps [OF assms(3)] r show ?thesis by simp
qed

theorem resume_skips_consumed_microbatches_witness:
  "\<exists>state s'.
     build_state latest_or_target True small_cfg local_rt fresh_state fresh_state
       (tx fresh_state) (apply_fn fresh_state)
       (fst (save_checkpoint 0 (state_at 2) ''checkpoints'' None None empty_store)) =
         Inr (state, Some 2) \<and>
     run_loop (small_driver (Some 2)) 0 [10, 11, 12, 13, 14, 15]
       (start state (fst (save_checkpoint 0 (state_at 2) ''checkpoints'' None None empty_store))) =
         Inr s' \<and>
     train_steps (ls_trace s') = [3, 4, 5]"
proof -
  let ?store = "fst (save_checkpoint 0 (state_at 2) ''checkpoints'' None None empty_store)"
  have g: "\<not> gs_uri ''checkpoints''" by (simp add: gs_uri_def)
  have b: "build_state latest_or_target True small_cfg local_rt fresh_state fresh_state
             (tx fresh_state) (apply_fn fresh_state) ?store = Inr (state_at 2, Some 2)"
    using g
    by (simp add: build_state_def restore_checkpoint_def latest_or_target_def save_checkpoint_def
        lib_save_checkpoint_def lib_save_dirs_def small_cfg_def local_rt_def empty_store_def
        state_at_def Let_def)
  have d: "d_resume_step (small_driver (Some 2)) = Some 2"
    by (simp add: small_driver_def)
  obtain s' where l: "run_loop (small_driver (Some 2)) 0 [10, 11, 12, 13, 14, 15]
                        (start (state_at 2) ?store) = Inr s'"
    using g
    by (simp add: small_driver_def small_cfg_def local_rt_def plain_engine_def start_def
        state_at_def fresh_state_def loop_body_def window_def pjit_train_step_def train_step_def
        apply_gradients_def eval_step_def checkpoint_after_eval_def save_checkpoint_def
        lib_save_dirs_def step_to_seq_def Let_def)
  have c: "[0..<6] = [0, 1, 2, 3, 4, 5]" by (simp add: upt_rec)
  have "train_steps (ls_trace s') = [3, 4, 5]"
    using resume_skips_consumed_microbatches [OF b d l] c
    by (simp add: small_driver_def small_cfg_def start_def state_at_def)
  with b l show ?thesis by blast
qed

text \<open>
  C10: on a fresh run the first microbatch, of index 0, ends an accumulation window and
  starts an evaluation: after its train step the running metrics, which hold that one
  microbatch, are averaged and cleared, the validation loader is evaluated, and process 0
  logs and calls save_checkpoint, whose exception, if it raises one, ends the run. The
  accumulation factor and the evaluation frequency are not zero, the step budget is not
  negative, the batch fits the sequence length, and the evaluation has at least one
  microbatch.
\<close>

theorem first_microbatch_ends_window_and_evaluates:
  assumes "d_resume_step d = None" and "ls_running_metrics s = []"
    and "gradient_accumulation_steps (d_cfg d) \<noteq> 0"
    and "evaluation_frequency (d_cfg d) \<noteq> 0"
    and "0 \<le> total_steps (d_cfg d)"
    and "d_reshape d b (step_to_seq 0) = Inr b'"
    and "d_validation d \<noteq> []" and "0 < maximum_evaluation_steps (d_cfg d)"
    and "d_split d (ls_rng s) = (rng, dropout_rng)"
    and "pjit_train_step d (ls_state s) b' dropout_rng = (state, metrics)"
  shows "loop_body d 0 b s =
           (if rt_process_index (d_rt d) = 0 then
              (case checkpoint_after_eval d state (ls_store s) of
                 (store, Some e) \<Rightarrow> Inl e
               | (store, None) \<Rightarrow>
                   Inr (Continue (s
                     \<lparr>ls_state := state, ls_rng := rng, ls_running_metrics := [],
                      ls_store := store,
                      ls_trace := ls_trace s @
                        [TrainStep 0,
                         WindowAverage 0 [metrics @ [(''Train Sequence Length'', 512)]],
                         Evaluation 0 (map (eval_step state)
                           (take (nat (maximum_evaluation_steps (d_cfg d))) (d_validation d))),
                         LogMetrics 0, SaveCheckpoint 0]\<rparr>)))
            else
              Inr (Continue (s
                \<lparr>ls_state := state, ls_rng := rng, ls_running_metrics := [],
                 ls_trace := ls_trace s @
                   [TrainStep 0,
                    WindowAverage 0 [metrics @ [(''Train Sequence Length'', 512)]],
                    Evaluation 0 (map (eval_step state)
                      (take (nat (maximum_evaluation_steps (d_cfg d))) (d_validation d)))]\<rparr>)))"
proof -
  have t: "take (nat (maximum_evaluation_steps (d_cfg d))) (d_validation d) \<noteq> []"
    using assms(7,8) by (cases "d_validation d") (auto simp: take_Cons')
  show ?thesis
    using assms(1-6) assms(9,10) t
    by (simp add: loop_body_def window_def Let_def step_to_seq_def
        split: prod.splits option.splits)
qed

theorem first_microbatch_ends_window_and_evaluates_witness:
  "loop_body (small_driver None) 0 10 (start fresh_state empty_store) =
     Inr (Continue ((start fresh_state empty_store)
       \<lparr>ls_state := fst (pjit_train_step (small_driver None) fresh_state 10 ()),
        ls_rng := (), ls_running_metrics := [],
        ls_store := fst (checkpoint_after_eval (small_driver None)
                      (fst (pjit_train_step (small_driver None) fresh_state 10 ())) empty_store),
        ls_trace :=
          [TrainStep 0,
           WindowAverage 0 [snd (pjit_train_step (small_driver None) fresh_state 10 ()) @
                              [(''Train Sequence Length'', 512)]],
           Evaluation 0 (map (eval_step (fst (pjit_train_step (small_driver None) fresh_state 10 ())))
                           [1, 2]),
           LogMetrics 0, SaveCheckpoint 0]\<rparr>))"
proof -
  let ?d = "small_driver None"
  let ?s = "start fresh_state empty_store"
  let ?st = "fst (pjit_train_step ?d fresh_state 10 ())"
  have h1: "d_resume_step ?d = None" by (simp add: small_driver_def)
  have h2: "ls_running_metrics ?s = []" by (simp add: start_def)
  have h3: "gradient_accumulation_steps (d_cfg ?d) \<noteq> 0"
    by (simp add: small_driver_def small_cfg_def)
  have h4: "evaluation_frequency (d_cfg ?d) \<noteq> 0"
    by (simp add: small_driver_def small_cfg_def)
  have h5: "0 \<le> total_steps (d_cfg ?d)"
    by (simp add: small_driver_def small_cfg_def)
  have h6: "d_reshape ?d 10 (step_to_seq 0) = Inr 10" by (simp add: small_driver_def)
  have h7: "d_validation ?d \<noteq> []" by (simp add: small_driver_def)
  have h8: "0 < maximum_evaluation_steps (d_cfg ?d)"
    by (simp add: small_driver_def small_cfg_def)
  have h9: "d_split ?d (ls_rng ?s) = ((), ())" by (simp add: small_driver_def)
  have h10: "pjit_train_step ?d (ls_state ?s) 10 () =
               (?st, snd (pjit_train_step ?d fresh_state 10 ()))"
    by (simp add: start_def)
  have r: "rt_process_index (d_rt ?d) = 0" by (simp add: small_driver_def local_rt_def)
  have v: "take (nat (maximum_evaluation_steps (d_cfg ?d))) (d_validation ?d) = [1, 2]"
    by (simp add: small_driver_def small_cfg_def)
  have st: "ls_store ?s = empty_store" "ls_trace ?s = []" by (simp_all add: start_def)
  have g: "\<not> gs_uri ''checkpoints''" by (simp add: gs_uri_def)
  have ok: "snd (checkpoint_after_eval ?d ?st empty_store) = None"
    by (rule local_data_parallel_run_writes_opt_state [THEN conjunct1])
      (simp_all add: g small_driver_def small_cfg_def local_rt_def)
  obtain store' where c: "checkpoint_after_eval ?d ?st empty_store = (store', None)"
    using ok by (cases "checkpoint_after_eval ?d ?st empty_store") auto
  show ?thesis
    using first_microbatch_ends_window_and_evaluates [OF h1 h2 h3 h4 h5 h6 h7 h8 h9 h10]
    by (simp add: r v st c)
qed

section \<open>Properties of the state builder\<close>

text \<open>
  C4: a resume request whose source location holds no checkpoint fails. The source's
  restore_checkpoint has no such test and no fresh-run flag: it returns what the checkpoint
  library's restore returns. A resume request fails with the library's error exactly when
  that call fails, in a pure data-parallel run and in a combined-sharded run whose
  opt_state blob is present. In a combined-sharded run whose opt_state blob is absent it
  fails: with NotFound when the blob is read from the bucket, which is before the library
  is called, and on the local path with the library's error when the library call fails
  and with FileNotFoundError otherwise. Without the resume flag the state is built from
  nothing the storage or the library holds: restore is not attempted.
\<close>

theorem resume_fails_only_through_library:
  "restore_checkpoint lib store template workdir = lib (checkpoint_dirs store workdir) template \<and>
   (mp_devices cfg = 1 \<or> opt_state_blob cfg rt store \<noteq> None \<longrightarrow>
      (\<forall>e. build_state lib True cfg rt template sharded tx0 model_apply store = Inl e \<longleftrightarrow>
            lib (checkpoint_dirs store (resume_workdir cfg rt)) template = Inl e)) \<and>
   (mp_devices cfg \<noteq> 1 \<and> opt_state_blob cfg rt store = None \<longrightarrow>
      build_state lib True cfg rt template sharded tx0 model_apply store =
        (if rt_save_to_bucket rt then Inl NotFound
         else (case lib (checkpoint_dirs store (checkpoint_directory cfg)) template of
                 Inl e \<Rightarrow> Inl e
               | Inr state \<Rightarrow> Inl FileNotFoundError))) \<and>
   build_state lib False cfg rt template sharded tx0 model_apply store =
     build_state lib' False cfg rt template sharded tx0 model_apply store'"
proof -
  have a: "restore_checkpoint lib store template workdir = lib (checkpoint_dirs store workdir) template"
    by (simp add: restore_checkpoint_def)
  have b: "build_state lib True cfg rt template sharded tx0 model_apply store = Inl e \<longleftrightarrow>
           lib (checkpoint_dirs store (resume_workdir cfg rt)) template = Inl e"
    if "mp_devices cfg = 1 \<or> opt_state_blob cfg rt store \<noteq> None" for e
    using that
    by (auto simp: build_state_def restore_checkpoint_def resume_workdir_def opt_state_blob_def
        split: sum.splits if_splits)
  have c: "build_state lib True cfg rt template sharded tx0 model_apply store =
        (if rt_save_to_bucket rt then Inl NotFound
         else (case lib (checkpoint_dirs store (checkpoint_directory cfg)) template of
                 Inl e \<Rightarrow> Inl e
               | Inr state \<Rightarrow> Inl FileNotFoundError))"
    if "mp_devices cfg \<noteq> 1" "opt_state_blob cfg rt store = None"
    using that
    by (auto simp: build_state_def restore_checkpoint_def opt_state_blob_def split: sum.splits)
  have d: "build_state lib False cfg rt template sharded tx0 model_apply store =
           build_state lib' False cfg rt template sharded tx0 model_apply store'"
    by (simp add: build_state_def)
  from a b c d show ?thesis by blast
qed

theorem resume_fails_only_through_library_witness:
  "(\<forall>e. build_state latest_or_target True small_cfg local_rt fresh_state fresh_state
           (tx fresh_state) (apply_fn fresh_state) empty_store \<noteq> Inl e) \<and>
   build_state latest_or_target True sharded_cfg local_rt fresh_state fresh_state
     (tx fresh_state) (apply_fn fresh_state) empty_store = Inl FileNotFoundError \<and>
   build_state latest_or_target True sharded_cfg bucket_rt fresh_state fresh_state
     (tx fresh_state) (apply_fn fresh_state) empty_store = Inl NotFound"
proof -
  have m1: "mp_devices small_cfg = 1" by (simp add: small_cfg_def)
  have m2: "mp_devices sharded_cfg \<noteq> 1 \<and> opt_state_blob sharded_cfg local_rt empty_store = None"
    by (simp add: sharded_cfg_def small_cfg_def opt_state_blob_def local_rt_def empty_store_def)
  have m3: "mp_devices sharded_cfg \<noteq> 1 \<and> opt_state_blob sharded_cfg bucket_rt empty_store = None"
    by (simp add: sharded_cfg_def small_cfg_def opt_state_blob_def bucket_rt_def empty_store_def)
  have l: "latest_or_target (checkpoint_dirs empty_store w) fresh_state = Inr fresh_state" for w
    by (simp add: latest_or_target_def empty_store_def)
  have "\<forall>e. build_state latest_or_target True small_cfg local_rt fresh_state fresh_state
           (tx fresh_state) (apply_fn fresh_state) empty_store \<noteq> Inl e"
    using resume_fails_only_through_library
      [of latest_or_target empty_store fresh_state "''checkpoints''" small_cfg local_rt fresh_state
         "tx fresh_state" "apply_fn fresh_state"] m1 l
    by simp
  moreover have "build_state latest_or_target True sharded_cfg local_rt fresh_state fresh_state
           (tx fresh_state) (apply_fn fresh_state) empty_store = Inl FileNotFoundError"
    using resume_fails_only_through_library
      [of latest_or_target empty_store fresh_state "''checkpoints''" sharded_cfg local_rt fresh_state
         "tx fresh_state" "apply_fn fresh_state"] m2 l
    by (simp add: local_rt_def)
  moreover have "build_state latest_or_target True sharded_cfg bucket_rt fresh_state fresh_state
           (tx fresh_state) (apply_fn fresh_state) empty_store = Inl NotFound"
    using resume_fails_only_through_library
      [of latest_or_target empty_store fresh_state "''checkpoints''" sharded_cfg bucket_rt fresh_state
         "tx fresh_state" "apply_fn fresh_state"] m3
    by (simp add: bucket_rt_def)
  ultimately show ?thesis by blast
qed

text \<open>
  With a library restore that returns the target unchanged when the directory holds no
  checkpoint, a resume request in a pure data-parallel run on an empty location does not
  fail: the run goes on from the template state with \<^verbatim>\<open>resume_step\<close> 0.
\<close>

theorem resume_from_empty_location_succeeds:
  "build_state latest_or_target True small_cfg local_rt fresh_state fresh_state
     (tx fresh_state) (apply_fn fresh_state) empty_store = Inr (fresh_state, Some 0)"
  by (simp add: build_state_def restore_checkpoint_def latest_or_target_def small_cfg_def
      local_rt_def empty_store_def fresh_state_def)

end
